theory Spec2Isabelle
  imports Main "HOL-Library.Word"
begin

unbundle bit_operations_syntax

section \<open>GAP layer over HCI (gap\_hci.go): data model\<close>

type_synonym byte = "8 word"
type_synonym uint16 = "16 word"

text \<open>Constants of gap\_hci.go, lines 12--32.\<close>

definition defaultMTU :: uint16 where "defaultMTU = 23"

definition ADTypeGeneralDiscoverable :: byte where "ADTypeGeneralDiscoverable = 0x02"
definition ADTypeFlagsBREDRNotSupported :: byte where "ADTypeFlagsBREDRNotSupported = 0x04"
definition ADFlags :: byte where "ADFlags = 0x01"
definition ADIncompleteAdvertisedService16 :: byte where "ADIncompleteAdvertisedService16 = 0x02"
definition ADCompleteAdvertisedService16 :: byte where "ADCompleteAdvertisedService16 = 0x03"
definition ADIncompleteAdvertisedService128 :: byte where "ADIncompleteAdvertisedService128 = 0x06"
definition ADCompleteAdvertisedService128 :: byte where "ADCompleteAdvertisedService128 = 0x07"
definition ADShortLocalName :: byte where "ADShortLocalName = 0x08"
definition ADCompleteLocalName :: byte where "ADCompleteLocalName = 0x09"
definition ADServiceData :: byte where "ADServiceData = 0x16"
definition ADManufacturerData :: byte where "ADManufacturerData = 0xFF"

text \<open>
  Every error value the functions of gap\_hci.go can return, and the run-time panic of
  Go (an index or a slice bound out of range), which ends the call.
  \<open>ErrTransport\<close> stands for an error handed up from the HCI transport or the
  attribute protocol.
\<close>

datatype error =
    errScanning
  | errNotScanning
  | ErrConnect
  | ErrManufacturerDataTooLong
  | ErrServiceDataTooLong
  | ErrServiceData32Bit
  | ErrTransport nat
  | Panic

text \<open>
  Modelled from the spec: the type UUID and its methods Is16Bit, Is32Bit, Get16Bit and
  Bytes are declared outside gap\_hci.go. A UUID is taken as what these four methods
  return on it; nothing is assumed about how the four relate.
\<close>

record UUID =
  Is16Bit :: bool
  Is32Bit :: bool
  Get16Bit :: uint16
  Bytes :: "byte list"

record ManufacturerDataElement =
  CompanyID :: uint16
  md_Data :: "byte list"

record ServiceDataElement =
  sd_UUID :: UUID
  sd_Data :: "byte list"

subsection \<open>Fixed-size byte arrays\<close>

text \<open>
  A \<open>[31]byte\<close> array is a list of 31 bytes. An index expression of type uint8 has
  already wrapped modulo 256 when it reaches the bounds check, so the helpers take the
  index as a natural number read off the word. A write with the index out of range, a
  slice \<open>a[k:]\<close> with \<open>k\<close> beyond the length, and PutUint16 on a slice shorter
  than two bytes all panic.
\<close>

definition zeroArray :: "nat \<Rightarrow> byte list" where
  "zeroArray n = replicate n 0"

definition setIndex :: "byte list \<Rightarrow> nat \<Rightarrow> byte \<Rightarrow> error + byte list" where
  "setIndex a i v = (if i < length a then Inr (a[i := v]) else Inl Panic)"

text \<open>\<open>binary.LittleEndian.PutUint16(a[k:], v)\<close>\<close>

definition PutUint16 :: "byte list \<Rightarrow> nat \<Rightarrow> uint16 \<Rightarrow> error + byte list" where
  "PutUint16 a k v =
     (if length a < k then Inl Panic
      else if length a - k < 2 then Inl Panic
      else Inr (a[k := ucast v, Suc k := ucast (drop_bit 8 v)]))"

text \<open>\<open>copy(a[k:], src)\<close>: copies as many bytes as fit.\<close>

definition copyAt :: "byte list \<Rightarrow> nat \<Rightarrow> byte list \<Rightarrow> error + byte list" where
  "copyAt a k src =
     (if length a < k then Inl Panic
      else Inr (take k a @ take (length a - k) src @ drop (k + length src) a))"

text \<open>\<open>a[:n]\<close>\<close>

definition sliceTo :: "byte list \<Rightarrow> nat \<Rightarrow> error + byte list" where
  "sliceTo a n = (if length a < n then Inl Panic else Inr (take n a))"

definition bindE :: "error + 'a \<Rightarrow> ('a \<Rightarrow> error + 'b) \<Rightarrow> error + 'b" where
  "bindE m f = (case m of Inl e \<Rightarrow> Inl e | Inr x \<Rightarrow> f x)"

section \<open>AD codec: the scan-response packet (setServiceData, lines 452--497)\<close>

text \<open>
  Lines 455--469: the local name. The result is the array and scanResponseDataLen.
  \<open>a.localName[:29]\<close> is \<open>take 29\<close>; the length byte of the second case is
  \<open>uint8(1 + len(a.localName))\<close>.
\<close>

definition scanResponse_localName :: "byte list \<Rightarrow> error + (byte list \<times> byte)" where
  "scanResponse_localName localName =
     (let scanResponseData = zeroArray 31 in
      if length localName > 29 then
        bindE (setIndex scanResponseData 0 (1 + 29)) (\<lambda>d.
        bindE (setIndex d 1 ADCompleteLocalName) (\<lambda>d.
        bindE (copyAt d 2 (take 29 localName)) (\<lambda>d.
        Inr (d, 31))))
      else if length localName > 0 then
        bindE (setIndex scanResponseData 0 (of_nat (1 + length localName))) (\<lambda>d.
        bindE (setIndex d 1 ADShortLocalName) (\<lambda>d.
        bindE (copyAt d 2 localName) (\<lambda>d.
        Inr (d, of_nat (2 + length localName)))))
      else Inr (scanResponseData, 0))"

text \<open>
  Lines 471--490: one pass of the loop body per service-data element. All the
  arithmetic on scanResponseDataLen is uint8 arithmetic.
\<close>

fun scanResponse_serviceData ::
  "ServiceDataElement list \<Rightarrow> byte list \<times> byte \<Rightarrow> error + (byte list \<times> byte)" where
  "scanResponse_serviceData [] (d, n) = Inr (d, n)"
| "scanResponse_serviceData (sde # rest) (d, n) =
     (if n + 4 + of_nat (length (sd_Data sde)) > 31 then Inl ErrServiceDataTooLong
      else
        bindE (if Is16Bit (sd_UUID sde) then PutUint16 d (unat (n + 2)) (Get16Bit (sd_UUID sde))
               else if Is32Bit (sd_UUID sde) then Inl ErrServiceData32Bit
               else Inr d) (\<lambda>d.
        bindE (setIndex d (unat n) (3 + of_nat (length (sd_Data sde)))) (\<lambda>d.
        bindE (setIndex d (unat (n + 1)) ADServiceData) (\<lambda>d.
        bindE (copyAt d (unat (n + 4)) (sd_Data sde)) (\<lambda>d.
        scanResponse_serviceData rest (d, n + (4 + of_nat (length (sd_Data sde)))))))))"

text \<open>
  The bytes handed to leSetScanResponseData (line 492):
  \<open>scanResponseData[:scanResponseDataLen]\<close>.
\<close>

definition scanResponsePacket ::
  "byte list \<Rightarrow> ServiceDataElement list \<Rightarrow> error + byte list" where
  "scanResponsePacket localName sd =
     bindE (scanResponse_localName localName) (\<lambda>dn.
     bindE (scanResponse_serviceData sd dn) (\<lambda>(d, n).
     sliceTo d (unat n)))"

text \<open>A Go string as its bytes.\<close>

definition bytes_of :: "string \<Rightarrow> byte list" where
  "bytes_of s = map (\<lambda>c. of_nat (of_char c)) s"

section \<open>AD codec: the advertising-data packet (Start, lines 357--400)\<close>

text \<open>
  Lines 357--363: the array, with the Flags structure in its first three bytes.
  The indices are constants, which the compiler checks against the array's size.
\<close>

definition advertisingData_flags :: "byte list \<times> byte" where
  "advertisingData_flags =
     ((zeroArray 31)[0 := 0x02, 1 := ADFlags,
         2 := ADTypeGeneralDiscoverable + ADTypeFlagsBREDRNotSupported], 0 + 3)"

text \<open>
  Lines 366--384: exactly one service UUID. \<open>sz\<close> stays 0 when the UUID is
  neither 16-bit nor 32-bit; the length byte 0x03 and the type are written in every case.
  \<open>slices.Reverse\<close> is \<open>rev\<close>.
\<close>

definition advertisingData_serviceUUIDs ::
  "UUID list \<Rightarrow> byte list \<times> byte \<Rightarrow> error + (byte list \<times> byte)" where
  "advertisingData_serviceUUIDs serviceUUIDs dn =
     (case dn of (d, n) \<Rightarrow>
      if length serviceUUIDs = 1 then
        (let uuid = hd serviceUUIDs in
         bindE (if Is16Bit uuid then
                  bindE (PutUint16 d 5 (Get16Bit uuid)) (\<lambda>d. Inr (2 :: byte, d))
                else if Is32Bit uuid then
                  bindE (copyAt d 5 (rev (Bytes uuid))) (\<lambda>d. Inr (6, d))
                else Inr (0, d)) (\<lambda>(sz, d).
         Inr (d[3 := 0x03, 4 := ADCompleteAdvertisedService16], n + (sz + 2))))
      else Inr (d, n))"

text \<open>
  Lines 386--400: one pass of the loop body per manufacturer-data element, in uint8
  arithmetic on advertisingDataLen.
\<close>

fun advertisingData_manufacturerData ::
  "ManufacturerDataElement list \<Rightarrow> byte list \<times> byte \<Rightarrow> error + (byte list \<times> byte)" where
  "advertisingData_manufacturerData [] (d, n) = Inr (d, n)"
| "advertisingData_manufacturerData (md # rest) (d, n) =
     (if n + 4 + of_nat (length (md_Data md)) > 31 then Inl ErrManufacturerDataTooLong
      else
        bindE (setIndex d (unat n) (3 + of_nat (length (md_Data md)))) (\<lambda>d.
        bindE (setIndex d (unat (n + 1)) ADManufacturerData) (\<lambda>d.
        bindE (PutUint16 d (unat (n + 2)) (CompanyID md)) (\<lambda>d.
        bindE (copyAt d (unat (n + 4)) (md_Data md)) (\<lambda>d.
        advertisingData_manufacturerData rest (d, n + (4 + of_nat (length (md_Data md)))))))))"

text \<open>
  The bytes handed to leSetAdvertisingData (line 402):
  \<open>advertisingData[:advertisingDataLen]\<close>.
\<close>

definition advertisingPacket ::
  "UUID list \<Rightarrow> ManufacturerDataElement list \<Rightarrow> error + byte list" where
  "advertisingPacket serviceUUIDs manufacturerData =
     bindE (advertisingData_serviceUUIDs serviceUUIDs advertisingData_flags) (\<lambda>dn.
     bindE (advertisingData_manufacturerData manufacturerData dn) (\<lambda>(d, n).
     sliceTo d (unat n)))"

section \<open>The adapter and the HCI transport\<close>

text \<open>
  The commands gap\_hci.go sends to the HCI transport, with their arguments in the order
  of the calls.
\<close>

datatype hci_cmd =
    leSetScanEnable bool bool
  | leSetScanParameters byte uint16 uint16 byte byte
  | leCreateConn uint16 uint16 byte byte "byte list" byte uint16 uint16 uint16 uint16 uint16 uint16
  | leCancelConn
  | disconnect uint16
  | leSetAdvertisingParameters uint16 uint16 byte byte byte "byte list" byte byte
  | leSetAdvertisingData "byte list"
  | leSetScanResponseData "byte list"
  | leSetAdvertiseEnable bool

text \<open>
  Modelled from the spec: the structs behind \<open>a.hci.advData\<close> and
  \<open>a.hci.connectData\<close> are declared outside gap\_hci.go; these are the fields
  gap\_hci.go reads, and the peer address type of a connect-complete event, which the
  controller reports with the peer address. eirData is a byte buffer whose size is the
  length of the list (reading it out of range panics), eirLength an unsigned byte and
  rssi a signed one.
\<close>

record leAdvertisingReport =
  reported :: bool
  adv_peerBdaddrType :: byte
  adv_peerBdaddr :: "byte list"
  eirLength :: byte
  eirData :: "byte list"
  rssi :: byte

record leConnectData =
  connected :: bool
  cd_handle :: uint16
  cd_peerBdaddrType :: byte
  cd_peerBdaddr :: "byte list"

record MACAddress =
  MAC :: "byte list"
  isRandom :: bool

text \<open>
  The UUID constructors New16BitUUID and NewUUID are declared outside gap\_hci.go: a
  decoded service UUID is the constructor call that makes it.
\<close>

datatype decoded_uuid = New16BitUUID uint16 | NewUUID "byte list"

record AdvertisementFields =
  ServiceUUIDs :: "decoded_uuid list"
  LocalName :: "byte list"

record ScanResult =
  sr_Address :: MACAddress
  RSSI :: uint16
  AdvertisementPayload :: AdvertisementFields

text \<open>
  Lines 232--249. A callback is a function value, known here by an identifier. A
  notificationRegistration lives in a memory cell; the slice
  \<open>notificationRegistrations\<close> is the list of the cells of its elements, and a
  \<open>*notificationRegistration\<close> is the address of a cell or nil. A Device holds a
  pointer to its deviceInternal, so the copies of a Device share it.
\<close>

record notificationRegistration =
  nr_handle :: uint16
  nr_callback :: nat

record deviceInternal =
  di_handle :: uint16
  mtu :: uint16
  notificationRegistrations :: "nat list"

record Device =
  dev_Address :: MACAddress
  dev_internal :: nat

datatype characteristic_uuid =
  CharacteristicUUIDDeviceName | CharacteristicUUIDAppearance | CharacteristicUUIDServiceChanged

datatype characteristic_flag = CharacteristicReadPermission | CharacteristicIndicatePermission

datatype service_uuid = ServiceUUIDGenericAccess | ServiceUUIDGenericAttribute

record CharacteristicConfig =
  cc_UUID :: characteristic_uuid
  cc_Flags :: characteristic_flag
  cc_Value :: "byte list"

record Service =
  svc_UUID :: service_uuid
  Characteristics :: "CharacteristicConfig list"

text \<open>Where a task stands: the goroutine of Start (lines 415--432).\<close>

datatype task_pc = TaskSelect | TaskPoll | TaskSleep | TaskReturned

text \<open>
  The adapter, with everything it owns: the scanning flag, the transport's pending
  events, the commands sent to the transport so far (oldest first), the service table
  (the calls of AddService, oldest first), the connections (the calls of
  addConnection), the memory cells of the deviceInternal values and of the
  notificationRegistration values (a cell's address is its index), the number of calls
  of att.clearLocalData, and the background tasks.
\<close>

record Adapter =
  scanning :: bool
  advData :: leAdvertisingReport
  connectData :: leConnectData
  cmds :: "hci_cmd list"
  services :: "Service list"
  connections :: "Device list"
  devices :: "deviceInternal list"
  registrations :: "notificationRegistration list"
  attCleared :: nat
  tasks :: "task_pc list"

text \<open>
  Modelled from the spec: the HCI transport, the clock and the other tasks are outside
  gap\_hci.go. \<open>respond\<close> is the result of a command, given the commands sent
  before it; \<open>pollEvent k\<close> is what the \<open>k\<close>-th call of poll within one
  call of Scan or Connect surfaces (at most one pending advertisement report or
  connect-complete event, or an error); \<open>now k\<close> is the \<open>k\<close>-th reading of
  \<open>time.Now().UnixNano()\<close> within one call; \<open>stopDuring k\<close> tells whether another
  task calls StopScan while Scan sleeps for the \<open>k\<close>-th time; makeAddress and
  makeNINAAddress are the two address conversions.
\<close>

datatype poll_outcome =
    PollError error
  | PollNothing
  | PollAdvertisingReport leAdvertisingReport
  | PollConnectComplete leConnectData

record env =
  respond :: "hci_cmd list \<Rightarrow> hci_cmd \<Rightarrow> error option"
  pollEvent :: "nat \<Rightarrow> poll_outcome"
  now :: "nat \<Rightarrow> 64 word"
  stopDuring :: "nat \<Rightarrow> bool"
  makeAddress :: "byte list \<Rightarrow> byte list"
  makeNINAAddress :: "byte list \<Rightarrow> byte list"

definition hciCommand :: "env \<Rightarrow> hci_cmd \<Rightarrow> Adapter \<Rightarrow> error option \<times> Adapter" where
  "hciCommand tr c a = (respond tr (cmds a) c, a\<lparr>cmds := cmds a @ [c]\<rparr>)"

definition poll :: "env \<Rightarrow> nat \<Rightarrow> Adapter \<Rightarrow> error + Adapter" where
  "poll tr k a =
     (case pollEvent tr k of
        PollError e \<Rightarrow> Inl e
      | PollNothing \<Rightarrow> Inr a
      | PollAdvertisingReport r \<Rightarrow> Inr (a\<lparr>advData := r\<rparr>)
      | PollConnectComplete c \<Rightarrow> Inr (a\<lparr>connectData := c\<rparr>))"

text \<open>Modelled from the spec: clearAdvData and clearConnectData drop the pending event.\<close>

definition clearAdvData :: "Adapter \<Rightarrow> Adapter" where
  "clearAdvData a =
     a\<lparr>advData := \<lparr>reported = False, adv_peerBdaddrType = 0, adv_peerBdaddr = replicate 6 0,
                    eirLength = 0, eirData = replicate (length (eirData (advData a))) 0,
                    rssi = 0\<rparr>\<rparr>"

definition clearConnectData :: "Adapter \<Rightarrow> Adapter" where
  "clearConnectData a =
     a\<lparr>connectData := \<lparr>connected = False, cd_handle = 0, cd_peerBdaddrType = 0,
                        cd_peerBdaddr = replicate 6 0\<rparr>\<rparr>"

text \<open>Modelled from the spec: AddService and addConnection record their argument.\<close>

definition AddService :: "Service \<Rightarrow> Adapter \<Rightarrow> Adapter" where
  "AddService s a = a\<lparr>services := services a @ [s]\<rparr>"

definition addConnection :: "Device \<Rightarrow> Adapter \<Rightarrow> Adapter" where
  "addConnection d a = a\<lparr>connections := connections a @ [d]\<rparr>"

section \<open>Scan engine (lines 35--150)\<close>

text \<open>
  Lines 81--98: one AD structure at offset \<open>i\<close> with length byte \<open>l\<close> and type
  \<open>t\<close>. \<open>eirData[i+2:i+4]\<close>, \<open>eirData[i+2:i+18]\<close> and
  \<open>eirData[i+2:i+1+l]\<close> panic when their upper bound is beyond the buffer.
\<close>

definition sliceBetween :: "byte list \<Rightarrow> nat \<Rightarrow> nat \<Rightarrow> error + byte list" where
  "sliceBetween a lo hi =
     (if hi < lo \<or> length a < hi then Inl Panic else Inr (drop lo (take hi a)))"

definition Uint16 :: "byte list \<Rightarrow> uint16" where
  "Uint16 b = ucast (b ! 0) OR push_bit 8 (ucast (b ! 1))"

definition decodeStructure ::
  "byte list \<Rightarrow> nat \<Rightarrow> nat \<Rightarrow> byte \<Rightarrow> AdvertisementFields \<Rightarrow> error + AdvertisementFields" where
  "decodeStructure data i l t adf =
     (if t = ADIncompleteAdvertisedService16 \<or> t = ADCompleteAdvertisedService16 then
        bindE (sliceBetween data (i + 2) (i + 4)) (\<lambda>b.
        Inr (adf\<lparr>ServiceUUIDs := ServiceUUIDs adf @ [New16BitUUID (Uint16 b)]\<rparr>))
      else if t = ADIncompleteAdvertisedService128 \<or> t = ADCompleteAdvertisedService128 then
        bindE (sliceBetween data (i + 2) (i + 18)) (\<lambda>b.
        Inr (adf\<lparr>ServiceUUIDs := ServiceUUIDs adf @ [NewUUID b]\<rparr>))
      else if t = ADShortLocalName \<or> t = ADCompleteLocalName then
        bindE (sliceBetween data (i + 2) (i + 1 + l)) (\<lambda>b.
        Inr (adf\<lparr>LocalName := b\<rparr>))
      else Inr adf)"

text \<open>
  Lines 75--101: the walk over the report, from offset \<open>i\<close>, with \<open>n\<close> the
  declared length \<open>int(eirLength)\<close>. Both header bytes are read before the test on
  \<open>l\<close>.
\<close>

function decodeWalk ::
  "byte list \<Rightarrow> nat \<Rightarrow> nat \<Rightarrow> AdvertisementFields \<Rightarrow> error + AdvertisementFields" where
  "decodeWalk data n i adf =
     (if \<not> i < n then Inr adf
      else if \<not> i + 1 < length data then Inl Panic
      else
        (let l = unat (data ! i); t = data ! (i + 1) in
         if l < 1 then Inr adf
         else
           (case decodeStructure data i l t adf of
              Inl e \<Rightarrow> Inl e
            | Inr adf' \<Rightarrow> decodeWalk data n (i + (l + 1)) adf')))"
  by pat_completeness auto
termination
  by (relation "measure (\<lambda>(data, n, i, adf). n - i)") auto

definition decode :: "leAdvertisingReport \<Rightarrow> error + AdvertisementFields" where
  "decode r = decodeWalk (eirData r) (unat (eirLength r)) 0 \<lparr>ServiceUUIDs = [], LocalName = []\<rparr>"

text \<open>Lines 138--150.\<close>

definition StopScan :: "env \<Rightarrow> Adapter \<Rightarrow> error option \<times> Adapter" where
  "StopScan tr a =
     (if \<not> scanning a then (Some errNotScanning, a)
      else
        (case hciCommand tr (leSetScanEnable False False) a of
           (Some err, a1) \<Rightarrow> (Some err, a1)
         | (None, a1) \<Rightarrow> (None, a1\<lparr>scanning := False\<rparr>)))"

text \<open>\<open>time.Sleep\<close> inside Scan: the point where another task may call StopScan.\<close>

definition sleepScan :: "env \<Rightarrow> nat \<Rightarrow> Adapter \<Rightarrow> Adapter" where
  "sleepScan tr k a = (if stopDuring tr k then snd (StopScan tr a) else a)"

text \<open>Lines 103--116: the result handed to the callback.\<close>

definition scanResult :: "env \<Rightarrow> leAdvertisingReport \<Rightarrow> AdvertisementFields \<Rightarrow> ScanResult" where
  "scanResult tr r adf =
     \<lparr>sr_Address = \<lparr>MAC = makeAddress tr (adv_peerBdaddr r),
                     isRandom = (adv_peerBdaddrType r = 0x01)\<rparr>,
      RSSI = scast (rssi r),
      AdvertisementPayload = adf\<rparr>"

text \<open>
  Lines 58--133: the polling loop, at its \<open>k\<close>-th pass. It need not end, so the
  result is optional: \<open>None\<close> is a loop that runs forever. The clock readings of
  lines 56 and 126--128 and the \<open>println\<close> calls serve the debug output only,
  which is no part of the state.
\<close>

partial_function (option) Scan_loop ::
  "env \<Rightarrow> (Adapter \<Rightarrow> ScanResult \<Rightarrow> Adapter) \<Rightarrow> nat \<Rightarrow> Adapter \<Rightarrow> (error option \<times> Adapter) option" where
  "Scan_loop tr callback k a =
     (case poll tr k a of
        Inl err \<Rightarrow> Some (Some err, a)
      | Inr a1 \<Rightarrow>
          if reported (advData a1) then
            if eirLength (advData a1) > 31 then Scan_loop tr callback (Suc k) (clearAdvData a1)
            else
              (case decode (advData a1) of
                 Inl e \<Rightarrow> Some (Some e, a1)
               | Inr adf \<Rightarrow>
                   Scan_loop tr callback (Suc k)
                     (sleepScan tr k (clearAdvData (callback a1 (scanResult tr (advData a1) adf)))))
          else if \<not> scanning a1 then Some (None, a1)
          else Scan_loop tr callback (Suc k) (sleepScan tr k a1))"

text \<open>Lines 35--56.\<close>

definition Scan ::
  "env \<Rightarrow> (Adapter \<Rightarrow> ScanResult \<Rightarrow> Adapter) \<Rightarrow> Adapter \<Rightarrow> (error option \<times> Adapter) option" where
  "Scan tr callback a =
     (if scanning a then Some (Some errScanning, a)
      else
        (case hciCommand tr (leSetScanEnable False True) a of
           (Some err, a1) \<Rightarrow> Some (Some err, a1)
         | (None, a1) \<Rightarrow>
        (case hciCommand tr (leSetScanParameters 0x00 0x0080 0x0030 0x00 0x00) a1 of
           (Some err, a2) \<Rightarrow> Some (Some err, a2)
         | (None, a2) \<Rightarrow>
        (case hciCommand tr (leSetScanEnable True False) (a2\<lparr>scanning := True\<rparr>) of
           (Some err, a3) \<Rightarrow> Some (Some err, a3)
         | (None, a3) \<Rightarrow> Scan_loop tr callback 0 a3))))"

section \<open>Connection establisher (lines 157--230)\<close>

text \<open>
  Line 216: \<open>(time.Now().UnixNano()-start)/int64(time.Second) > 5\<close>. The
  subtraction is int64 subtraction; Go's division truncates towards zero.
\<close>

definition truncDiv :: "int \<Rightarrow> int \<Rightarrow> int" where
  "truncDiv x y = sgn x * sgn y * (\<bar>x\<bar> div \<bar>y\<bar>)"

definition timedOut :: "64 word \<Rightarrow> 64 word \<Rightarrow> bool" where
  "timedOut start t \<longleftrightarrow> truncDiv (sint (t - start)) 1000000000 > 5"

text \<open>Lines 192--210: the Device of a completed connection, in a new deviceInternal.\<close>

definition newDevice :: "env \<Rightarrow> MACAddress \<Rightarrow> Adapter \<Rightarrow> Device \<times> Adapter" where
  "newDevice tr address a =
     (let random = (if isRandom address then True else False);
          d = \<lparr>dev_Address = \<lparr>MAC = makeAddress tr (cd_peerBdaddr (connectData a)),
                                isRandom = random\<rparr>,
               dev_internal = length (devices a)\<rparr>;
          a1 = a\<lparr>devices := devices a @
                 [\<lparr>di_handle = cd_handle (connectData a), mtu = defaultMTU,
                   notificationRegistrations = []\<rparr>]\<rparr>
      in (d, addConnection d a1))"

text \<open>
  Lines 184--229: the polling loop at its \<open>k\<close>-th pass, and what follows the
  \<open>break\<close>. \<open>start\<close> is the reading \<open>now 0\<close>; the pass \<open>k\<close> reads
  \<open>now (k + 1)\<close>. The deferred clearConnectData runs after the result is built.
\<close>

partial_function (option) Connect_loop ::
  "env \<Rightarrow> MACAddress \<Rightarrow> 64 word \<Rightarrow> nat \<Rightarrow> Adapter \<Rightarrow> ((error + Device) \<times> Adapter) option" where
  "Connect_loop tr address start k a =
     (case poll tr k a of
        Inl err \<Rightarrow> Some (Inl err, a)
      | Inr a1 \<Rightarrow>
          if connected (connectData a1) then
            (case newDevice tr address a1 of (d, a2) \<Rightarrow> Some (Inr d, clearConnectData a2))
          else if timedOut start (now tr (Suc k)) then
            (case hciCommand tr leCancelConn a1 of
               (Some err, a2) \<Rightarrow> Some (Inl err, a2)
             | (None, a2) \<Rightarrow> Some (Inl ErrConnect, a2))
          else Connect_loop tr address start (Suc k) a1)"

text \<open>Lines 163--178: the connect command, with its twelve arguments.\<close>

definition connectCommand :: "env \<Rightarrow> MACAddress \<Rightarrow> hci_cmd" where
  "connectCommand tr address =
     (let random = (if isRandom address then 1 else 0) in
      leCreateConn 0x0060 0x0030 0x00 random (makeNINAAddress tr (MAC address)) 0x00
        0x0006 0x000c 0x0000 0x00c8 0x0004 0x0006)"

text \<open>Lines 158--230.\<close>

definition Connect ::
  "env \<Rightarrow> MACAddress \<Rightarrow> Adapter \<Rightarrow> ((error + Device) \<times> Adapter) option" where
  "Connect tr address a =
     (case hciCommand tr (connectCommand tr address) a of
        (Some err, a1) \<Rightarrow> Some (Inl err, a1)
      | (None, a1) \<Rightarrow> Connect_loop tr address (now tr 0) 0 a1)"

text \<open>
  A poll that neither fails nor surfaces a connect-complete event.
\<close>

definition pollQuiet :: "env \<Rightarrow> nat \<Rightarrow> bool" where
  "pollQuiet tr j =
     (case pollEvent tr j of
        PollError e \<Rightarrow> False
      | PollNothing \<Rightarrow> True
      | PollAdvertisingReport r \<Rightarrow> True
      | PollConnectComplete c \<Rightarrow> False)"

section \<open>Connection registry: notification registrations (lines 274--290)\<close>

text \<open>
  Lines 274--282. \<open>for _, n := range ...\<close> copies each element into the variable
  \<open>n\<close>; \<open>return &n\<close> is the address of that variable, a new cell that holds the
  copy. The result is the pointer (\<open>None\<close> is nil) and the memory.
\<close>

fun findIn ::
  "notificationRegistration list \<Rightarrow> nat list \<Rightarrow> uint16 \<Rightarrow>
     nat option \<times> notificationRegistration list" where
  "findIn mem [] h = (None, mem)"
| "findIn mem (c # cs) h =
     (let n = mem ! c in
      if nr_handle n = h then (Some (length mem), mem @ [n]) else findIn mem cs h)"

definition findNotificationRegistration ::
  "Device \<Rightarrow> uint16 \<Rightarrow> Adapter \<Rightarrow> nat option \<times> Adapter" where
  "findNotificationRegistration d h a =
     (case findIn (registrations a)
             (notificationRegistrations (devices a ! dev_internal d)) h of
        (p, mem) \<Rightarrow> (p, a\<lparr>registrations := mem\<rparr>))"

text \<open>
  Lines 284--290. The receiver is a copy of the Device, the deviceInternal behind its
  pointer is shared, so the new slice is stored there. \<open>append\<close> puts the new
  element in a new cell and keeps the cells of the earlier elements (when Go moves the
  slice to a larger array, nothing points into the old one).
\<close>

definition addNotificationRegistration ::
  "Device \<Rightarrow> uint16 \<Rightarrow> nat \<Rightarrow> Adapter \<Rightarrow> Adapter" where
  "addNotificationRegistration d h callback a =
     (let p = dev_internal d; di = devices a ! p; c = length (registrations a) in
      a\<lparr>registrations := registrations a @ [\<lparr>nr_handle = h, nr_callback = callback\<rparr>],
        devices := (devices a)[p := di\<lparr>notificationRegistrations :=
                                         notificationRegistrations di @ [c]\<rparr>]\<rparr>)"

text \<open>
  What a caller does with a \<open>*notificationRegistration\<close>: an assignment to the
  callback through it, and the registry of a device read element by element.
\<close>

definition setCallbackThrough :: "nat \<Rightarrow> nat \<Rightarrow> Adapter \<Rightarrow> Adapter" where
  "setCallbackThrough p callback a =
     a\<lparr>registrations := (registrations a)[p := (registrations a ! p)\<lparr>nr_callback := callback\<rparr>]\<rparr>"

definition registry :: "Device \<Rightarrow> Adapter \<Rightarrow> notificationRegistration list" where
  "registry d a =
     map (\<lambda>c. registrations a ! c) (notificationRegistrations (devices a ! dev_internal d))"

text \<open>
  Every pointer of the state points to a cell: the devices of the connection list to a
  deviceInternal, the slice elements to a notificationRegistration.
\<close>

definition wellFormed :: "Device \<Rightarrow> Adapter \<Rightarrow> bool" where
  "wellFormed d a \<longleftrightarrow>
     dev_internal d < length (devices a) \<and>
     list_all (\<lambda>c. c < length (registrations a))
       (notificationRegistrations (devices a ! dev_internal d))"

section \<open>Advertisement controller (lines 296--534)\<close>

text \<open>
  Lines 299--310. The adapter pointer is the one adapter of the state and the stop
  channel is part of the tasks' step relation below. The types of AdvertisingType and
  of the options' Interval are declared outside gap\_hci.go: they are integers,
  converted by \<open>uint8(...)\<close> and \<open>uint16(...)\<close>.
\<close>

record Advertisement =
  advertisementType :: int
  localName :: "byte list"
  serviceUUIDs :: "UUID list"
  interval :: uint16
  manufacturerData :: "ManufacturerDataElement list"
  serviceData :: "ServiceDataElement list"
  genericServiceInit :: bool

record AdvertisementOptions =
  opt_AdvertisementType :: int
  opt_LocalName :: "byte list"
  opt_ServiceUUIDs :: "UUID list"
  opt_Interval :: int
  opt_ManufacturerData :: "ManufacturerDataElement list"
  opt_ServiceData :: "ServiceDataElement list"

text \<open>The zero value of the struct: \<open>var defaultAdvertisement Advertisement\<close>.\<close>

definition defaultAdvertisement :: Advertisement where
  "defaultAdvertisement =
     \<lparr>advertisementType = 0, localName = [], serviceUUIDs = [], interval = 0,
      manufacturerData = [], serviceData = [], genericServiceInit = False\<rparr>"

text \<open>Lines 502--534.\<close>

definition configureGenericServices ::
  "byte list \<Rightarrow> uint16 \<Rightarrow> Advertisement \<times> Adapter \<Rightarrow> Advertisement \<times> Adapter" where
  "configureGenericServices name appearance st =
     (case st of (a, ad) \<Rightarrow>
      if genericServiceInit a then (a, ad)
      else
        (let ad1 = AddService
               \<lparr>svc_UUID = ServiceUUIDGenericAccess,
                Characteristics =
                  [\<lparr>cc_UUID = CharacteristicUUIDDeviceName,
                    cc_Flags = CharacteristicReadPermission,
                    cc_Value = localName a\<rparr>,
                   \<lparr>cc_UUID = CharacteristicUUIDAppearance,
                    cc_Flags = CharacteristicReadPermission,
                    cc_Value = [ucast (appearance AND 0xff), ucast (drop_bit 8 appearance)]\<rparr>]\<rparr> ad;
             ad2 = AddService
               \<lparr>svc_UUID = ServiceUUIDGenericAttribute,
                Characteristics =
                  [\<lparr>cc_UUID = CharacteristicUUIDServiceChanged,
                    cc_Flags = CharacteristicIndicatePermission,
                    cc_Value = []\<rparr>]\<rparr> ad1
         in (a\<lparr>genericServiceInit := True\<rparr>, ad2)))"

text \<open>Lines 324--345. Configure always returns nil.\<close>

definition Configure ::
  "AdvertisementOptions \<Rightarrow> Advertisement \<times> Adapter \<Rightarrow> Advertisement \<times> Adapter" where
  "Configure options st =
     (case st of (a, ad) \<Rightarrow>
      let a1 = a\<lparr>advertisementType := opt_AdvertisementType options\<rparr>;
          a2 = a1\<lparr>localName := (if opt_LocalName options \<noteq> [] then opt_LocalName options
                                 else bytes_of ''TinyGo'')\<rparr>;
          a3 = a2\<lparr>serviceUUIDs := opt_ServiceUUIDs options\<rparr>;
          a4 = a3\<lparr>interval := word_of_int (opt_Interval options)\<rparr>;
          a5 = (if interval a4 = 0 then a4\<lparr>interval := 0x0800\<rparr> else a4);
          a6 = a5\<lparr>manufacturerData := opt_ManufacturerData options\<rparr>;
          a7 = a6\<lparr>serviceData := opt_ServiceData options\<rparr>
      in configureGenericServices (localName a7) 0x0540 (a7, ad))"

text \<open>Lines 452--497.\<close>

definition setServiceData ::
  "env \<Rightarrow> ServiceDataElement list \<Rightarrow> Advertisement \<times> Adapter \<Rightarrow>
     error option \<times> Advertisement \<times> Adapter" where
  "setServiceData tr sd st =
     (case st of (a, ad) \<Rightarrow>
      let a1 = a\<lparr>serviceData := sd\<rparr> in
      (case scanResponsePacket (localName a1) (serviceData a1) of
         Inl err \<Rightarrow> (Some err, a1, ad)
       | Inr packet \<Rightarrow>
           (case hciCommand tr (leSetScanResponseData packet) ad of
              (Some err, ad1) \<Rightarrow> (Some err, a1, ad1)
            | (None, ad1) \<Rightarrow> (None, a1, ad1))))"

text \<open>
  Lines 348--435. The \<open>go\<close> statement adds a task that stands at its
  \<open>select\<close>.
\<close>

definition Start :: "env \<Rightarrow> Advertisement \<times> Adapter \<Rightarrow> error option \<times> Advertisement \<times> Adapter" where
  "Start tr st =
     (case st of (a, ad) \<Rightarrow>
      let typ = word_of_int (advertisementType a) in
      (case hciCommand tr
              (leSetAdvertisingParameters (interval a) (interval a) typ 0x00 0x00
                 (replicate 6 0x00) 0x07 0) ad of
         (Some err, ad1) \<Rightarrow> (Some err, a, ad1)
       | (None, ad1) \<Rightarrow>
       (case advertisingPacket (serviceUUIDs a) (manufacturerData a) of
         Inl err \<Rightarrow> (Some err, a, ad1)
       | Inr packet \<Rightarrow>
       (case hciCommand tr (leSetAdvertisingData packet) ad1 of
         (Some err, ad2) \<Rightarrow> (Some err, a, ad2)
       | (None, ad2) \<Rightarrow>
       (case setServiceData tr (serviceData a) (a, ad2) of
         (Some err, a3, ad3) \<Rightarrow> (Some err, a3, ad3)
       | (None, a3, ad3) \<Rightarrow>
       (case hciCommand tr (leSetAdvertiseEnable True) ad3 of
         (Some err, ad4) \<Rightarrow> (Some err, a3, ad4)
       | (None, ad4) \<Rightarrow> (None, a3, ad4\<lparr>tasks := tasks ad4 @ [TaskSelect]\<rparr>)))))))"

text \<open>
  Lines 438--449 and 415--432: Stop and the background tasks run interleaved, so they
  are a step relation. \<open>stop_pc\<close> is where the caller of Stop stands: before
  leSetAdvertiseEnable, at the sleep, before clearLocalData, blocked in the send on the
  unbuffered channel \<open>a.stop\<close>, or returned with its result.

  A send on an unbuffered channel completes together with one receive. A task's
  \<open>select\<close> takes the receive when a sender is waiting, and then returns; it takes
  \<open>default\<close> only when no sender waits. The error of att.poll is dropped by the task.
\<close>

datatype stop_pc = StopDisable | StopSleep | StopClear | StopSend | StopReturned "error option"

inductive step :: "env \<Rightarrow> stop_pc \<times> Adapter \<Rightarrow> stop_pc \<times> Adapter \<Rightarrow> bool" for tr :: env where
  stop_disable:
    "hciCommand tr (leSetAdvertiseEnable False) a = (None, a') \<Longrightarrow>
       step tr (StopDisable, a) (StopSleep, a')"
| stop_disable_err:
    "hciCommand tr (leSetAdvertiseEnable False) a = (Some err, a') \<Longrightarrow>
       step tr (StopDisable, a) (StopReturned (Some err), a')"
| stop_sleep:
    "step tr (StopSleep, a) (StopClear, a)"
| stop_clear:
    "step tr (StopClear, a) (StopSend, a\<lparr>attCleared := Suc (attCleared a)\<rparr>)"
| stop_send:
    "i < length (tasks a) \<Longrightarrow> tasks a ! i = TaskSelect \<Longrightarrow>
       step tr (StopSend, a) (StopReturned None, a\<lparr>tasks := (tasks a)[i := TaskReturned]\<rparr>)"
| task_default:
    "i < length (tasks a) \<Longrightarrow> tasks a ! i = TaskSelect \<Longrightarrow> s \<noteq> StopSend \<Longrightarrow>
       step tr (s, a) (s, a\<lparr>tasks := (tasks a)[i := TaskPoll]\<rparr>)"
| task_poll:
    "i < length (tasks a) \<Longrightarrow> tasks a ! i = TaskPoll \<Longrightarrow>
       step tr (s, a) (s, a\<lparr>tasks := (tasks a)[i := TaskSleep]\<rparr>)"
| task_sleep:
    "i < length (tasks a) \<Longrightarrow> tasks a ! i = TaskSleep \<Longrightarrow>
       step tr (s, a) (s, a\<lparr>tasks := (tasks a)[i := TaskSelect]\<rparr>)"


text \<open>An adapter on which nothing has happened yet.\<close>

definition newAdapter :: Adapter where
  "newAdapter =
     \<lparr>scanning = False,
      advData = \<lparr>reported = False, adv_peerBdaddrType = 0, adv_peerBdaddr = replicate 6 0,
                 eirLength = 0, eirData = replicate 31 0, rssi = 0\<rparr>,
      connectData = \<lparr>connected = False, cd_handle = 0, cd_peerBdaddrType = 0,
                        cd_peerBdaddr = replicate 6 0\<rparr>,
      cmds = [], services = [], connections = [], devices = [], registrations = [],
      attCleared = 0, tasks = []\<rparr>"

text \<open>
  A transport for concrete runs: every command succeeds, poll surfaces nothing, the
  clock advances two seconds per reading, no other task interferes, and the address
  conversions keep the bytes.
\<close>

definition quietEnv :: env where
  "quietEnv =
     \<lparr>respond = (\<lambda>history c. None), pollEvent = (\<lambda>k. PollNothing),
      now = (\<lambda>k. of_nat k * 2000000000), stopDuring = (\<lambda>k. False),
      makeAddress = (\<lambda>b. b), makeNINAAddress = (\<lambda>b. b)\<rparr>"

text \<open>
  A transport that refuses every command, and one that refuses only leCancelConn.
\<close>

definition refusingEnv :: env where
  "refusingEnv = quietEnv\<lparr>respond := (\<lambda>history c. Some (ErrTransport 1))\<rparr>"

definition cancelRefusingEnv :: env where
  "cancelRefusingEnv =
     quietEnv\<lparr>respond := (\<lambda>history c. if c = leCancelConn then Some (ErrTransport 1) else None)\<rparr>"

text \<open>
  A transport whose third poll surfaces a connect-complete event for the peer
  06:05:04:03:02:01 with handle 0x40 and address type 0 (public), and a caller's
  address 01:02:03:04:05:06, random.
\<close>

definition connectingEnv :: env where
  "connectingEnv =
     quietEnv\<lparr>pollEvent := (\<lambda>k. if k = 2 then
        PollConnectComplete \<lparr>connected = True, cd_handle = 0x40, cd_peerBdaddrType = 0x00,
                             cd_peerBdaddr = [6, 5, 4, 3, 2, 1]\<rparr>
        else PollNothing)\<rparr>"

definition peer :: MACAddress where
  "peer = \<lparr>MAC = [1, 2, 3, 4, 5, 6], isRandom = True\<rparr>"

text \<open>
  Following the spec's words (section 3): a packet is a sequence of AD structures
  \<open>[length][type][value]\<close> with \<open>length = 1 + len(value)\<close>, and no length
  exceeds what is left of the packet.
\<close>

fun wellFormedAD :: "byte list \<Rightarrow> bool" where
  "wellFormedAD [] = True"
| "wellFormedAD (l # rest) =
     (1 \<le> unat l \<and> unat l \<le> length rest \<and> wellFormedAD (drop (unat l) rest))"

text \<open>Options and reports for concrete runs.\<close>

definition options252 :: AdvertisementOptions where
  "options252 =
     \<lparr>opt_AdvertisementType = 0, opt_LocalName = bytes_of ''Go Bluetooth'',
      opt_ServiceUUIDs = [], opt_Interval = 0,
      opt_ManufacturerData = [\<lparr>CompanyID = 0x1234, md_Data = replicate 252 0x55\<rparr>],
      opt_ServiceData = []\<rparr>"

definition uuid128 :: UUID where
  "uuid128 = \<lparr>Is16Bit = False, Is32Bit = False, Get16Bit = 0, Bytes = map of_nat [1..<17]\<rparr>"

definition uuid32 :: UUID where
  "uuid32 = \<lparr>Is16Bit = False, Is32Bit = True, Get16Bit = 0, Bytes = map of_nat [1..<17]\<rparr>"

definition optionsNamed :: "string \<Rightarrow> AdvertisementOptions" where
  "optionsNamed name =
     \<lparr>opt_AdvertisementType = 0, opt_LocalName = bytes_of name,
      opt_ServiceUUIDs = [], opt_Interval = 0,
      opt_ManufacturerData = [], opt_ServiceData = []\<rparr>"

text \<open>
  A report of declared length 3 whose one AD structure, a local name, declares five
  bytes: the bytes \<open>tail\<close> lie at the offsets 3, 4 and 5 of the buffer. And a
  report of declared length 31 that fills a buffer of 31 bytes with length bytes 1.
\<close>

definition fullReport :: leAdvertisingReport where
  "fullReport =
     \<lparr>reported = True, adv_peerBdaddrType = 0, adv_peerBdaddr = replicate 6 0,
      eirLength = 31, eirData = replicate 31 1, rssi = 0\<rparr>"

definition truncatedReport :: "byte list \<Rightarrow> leAdvertisingReport" where
  "truncatedReport tail =
     \<lparr>reported = True, adv_peerBdaddrType = 0, adv_peerBdaddr = replicate 6 0,
      eirLength = 3, eirData = [5, 0x09, 0x41] @ tail @ replicate 25 0, rssi = 0\<rparr>"



definition device0 :: Device where
  "device0 = \<lparr>dev_Address = \<lparr>MAC = [6, 5, 4, 3, 2, 1], isRandom = True\<rparr>, dev_internal = 0\<rparr>"

definition connected0 :: Adapter where
  "connected0 =
     newAdapter\<lparr>devices := [\<lparr>di_handle = 0x40, mtu = defaultMTU, notificationRegistrations = []\<rparr>],
                connections := [device0]\<rparr>"

text \<open>
  An adapter on which connect data is pending at the call of Connect, and a transport
  whose clock advances 5.9 seconds per reading and whose second poll surfaces a
  connect-complete event.
\<close>

definition pendingAdapter :: Adapter where
  "pendingAdapter =
     newAdapter\<lparr>connectData := \<lparr>connected = True, cd_handle = 0x41, cd_peerBdaddrType = 0x00,
                                  cd_peerBdaddr = [9, 9, 9, 9, 9, 9]\<rparr>\<rparr>"

definition slowClockEnv :: env where
  "slowClockEnv =
     quietEnv\<lparr>now := (\<lambda>k. of_nat k * 5900000000),
       pollEvent := (\<lambda>k. if k = 1 then
         PollConnectComplete \<lparr>connected = True, cd_handle = 0x40, cd_peerBdaddrType = 0x00,
                              cd_peerBdaddr = [6, 5, 4, 3, 2, 1]\<rparr>
         else PollNothing)\<rparr>"



section \<open>Helper lemmas\<close>

lemma bindE_Inl [simp]: "bindE (Inl e) f = Inl e"
  by (simp add: bindE_def)

lemma bindE_Inr [simp]: "bindE (Inr x) f = f x"
  by (simp add: bindE_def)

lemma bindE_eq_Inr: "bindE m f = Inr y \<longleftrightarrow> (\<exists>x. m = Inr x \<and> f x = Inr y)"
  by (cases m) simp_all

lemma truncDiv_seconds: "truncDiv x 1000000000 > 5 \<longleftrightarrow> 6000000000 \<le> x"
proof (cases "x \<le> 0")
  case True
  then have "truncDiv x 1000000000 \<le> 0"
    by (cases "x = 0") (simp_all add: truncDiv_def sgn_if pos_imp_zdiv_nonneg_iff)
  with True show ?thesis by simp
next
  case False
  then have eq: "truncDiv x 1000000000 = x div 1000000000"
    by (simp add: truncDiv_def sgn_if)
  show ?thesis
  proof (cases "6000000000 \<le> x")
    case True
    then have "6000000000 div 1000000000 \<le> x div (1000000000::int)"
      by (intro zdiv_mono1) simp_all
    with True eq show ?thesis by simp
  next
    case nle: False
    then have "x div (1000000000::int) \<le> 5999999999 div 1000000000"
      by (intro zdiv_mono1) simp_all
    with nle eq show ?thesis by simp
  qed
qed

lemma timedOut_iff: "timedOut start t \<longleftrightarrow> 6000000000 \<le> sint (t - start)"
  by (simp add: timedOut_def truncDiv_seconds)

lemma poll_quiet:
  "pollQuiet tr j \<Longrightarrow> \<exists>a1. poll tr j a = Inr a1 \<and> connectData a1 = connectData a \<and> cmds a1 = cmds a"
  by (auto simp: pollQuiet_def poll_def split: poll_outcome.splits)

lemma Connect_loop_times_out:
  assumes "\<not> connected (connectData a)"
      and "\<forall>j. k \<le> j \<and> j \<le> K \<longrightarrow> pollQuiet tr j"
      and "\<forall>j. k \<le> j \<and> j < K \<longrightarrow> \<not> timedOut start (now tr (Suc j))"
      and "timedOut start (now tr (Suc K))"
      and "k \<le> K"
  shows "\<exists>a1. cmds a1 = cmds a \<and>
           Connect_loop tr address start k a =
             (case hciCommand tr leCancelConn a1 of
                (Some err, a2) \<Rightarrow> Some (Inl err, a2)
              | (None, a2) \<Rightarrow> Some (Inl ErrConnect, a2))"
  using assms
proof (induction "K - k" arbitrary: k a)
  case 0
  then have kK: "k = K" by simp
  from 0 have "pollQuiet tr k" by simp
  then obtain a1 where a1: "poll tr k a = Inr a1" "connectData a1 = connectData a" "cmds a1 = cmds a"
    using poll_quiet by blast
  have "Connect_loop tr address start k a =
             (case hciCommand tr leCancelConn a1 of
                (Some err, a2) \<Rightarrow> Some (Inl err, a2)
              | (None, a2) \<Rightarrow> Some (Inl ErrConnect, a2))"
    using a1 0 kK by (subst Connect_loop.simps) simp
  with a1 show ?case by blast
next
  case (Suc n)
  then have lt: "k < K" by simp
  from Suc have "pollQuiet tr k" by simp
  then obtain a1 where a1: "poll tr k a = Inr a1" "connectData a1 = connectData a" "cmds a1 = cmds a"
    using poll_quiet by blast
  have nt: "\<not> timedOut start (now tr (Suc k))" using Suc.prems lt by simp
  have step: "Connect_loop tr address start k a = Connect_loop tr address start (Suc k) a1"
    using a1 nt Suc.prems(1) by (subst Connect_loop.simps) simp
  have "\<exists>a2. cmds a2 = cmds a1 \<and>
           Connect_loop tr address start (Suc k) a1 =
             (case hciCommand tr leCancelConn a2 of
                (Some err, a3) \<Rightarrow> Some (Inl err, a3)
              | (None, a3) \<Rightarrow> Some (Inl ErrConnect, a3))"
  proof (rule Suc.hyps(1))
    show "n = K - Suc k" using Suc.hyps(2) by simp
    show "\<not> connected (connectData a1)" using a1 Suc.prems(1) by simp
    show "\<forall>j. Suc k \<le> j \<and> j \<le> K \<longrightarrow> pollQuiet tr j" using Suc.prems(2) by simp
    show "\<forall>j. Suc k \<le> j \<and> j < K \<longrightarrow> \<not> timedOut start (now tr (Suc j))" using Suc.prems(3) by simp
    show "timedOut start (now tr (Suc K))" by (rule Suc.prems(4))
    show "Suc k \<le> K" using lt by simp
  qed
  with step a1 show ?case by auto
qed

lemma Connect_loop_device:
  assumes "Connect_loop tr address start k a = Some (Inr d, a')"
  shows "isRandom (dev_Address d) = isRandom address \<and>
         (\<exists>c. connected c \<and> (c = connectData a \<or> (\<exists>j. pollEvent tr j = PollConnectComplete c)) \<and>
              MAC (dev_Address d) = makeAddress tr (cd_peerBdaddr c))"
proof -
  have "\<forall>d a'. r = (Inr d, a') \<longrightarrow> isRandom (dev_Address d) = isRandom address \<and>
         (\<exists>c. connected c \<and> (c = connectData a \<or> (\<exists>j. pollEvent tr j = PollConnectComplete c)) \<and>
              MAC (dev_Address d) = makeAddress tr (cd_peerBdaddr c))"
    if "Connect_loop tr address start k a = Some r" for r
    using that
  proof (induction tr address start k a r rule: Connect_loop.raw_induct[rotated 1, consumes 1])
    case (1 loop tr address start k a r)
    show ?case
    proof (cases "poll tr k a")
      case (Inl e)
      with 1(2) show ?thesis by auto
    next
      case (Inr a1)
      have cd: "connectData a1 = connectData a \<or> (\<exists>j. pollEvent tr j = PollConnectComplete (connectData a1))"
        using Inr by (auto simp: poll_def split: poll_outcome.splits)
      show ?thesis
      proof (cases "connected (connectData a1)")
        case True
        with 1(2) Inr cd show ?thesis
          by (auto simp: newDevice_def Let_def addConnection_def split: if_splits)
      next
        case nc: False
        show ?thesis
        proof (cases "timedOut start (now tr (Suc k))")
          case True
          with 1(2) Inr nc show ?thesis
            by (auto split: prod.splits option.splits)
        next
          case False
          with 1(2) Inr nc have "loop tr address start (Suc k) a1 = Some r" by simp
          from 1(1)[OF this] cd show ?thesis by metis
        qed
      qed
    qed
  qed
  with assms show ?thesis by blast
qed

lemma Configure_sets_init: "genericServiceInit (fst (Configure options st))"
  by (cases st) (simp add: Configure_def configureGenericServices_def Let_def)

lemma Configure_initialised:
  "genericServiceInit (fst st) \<Longrightarrow> snd (Configure options st) = snd st"
  by (cases st) (simp add: Configure_def configureGenericServices_def Let_def)

lemma fold_Configure_initialised:
  "genericServiceInit (fst st) \<Longrightarrow> snd (fold Configure opts st) = snd st"
proof (induction opts arbitrary: st)
  case Nil
  then show ?case by simp
next
  case (Cons x xs)
  have "snd (fold Configure xs (Configure x st)) = snd (Configure x st)"
    by (rule Cons.IH) (rule Configure_sets_init)
  with Cons.prems show ?case by (simp add: Configure_initialised)
qed



lemma findIn_Some:
  "findIn mem cs h = (Some p, mem') \<Longrightarrow>
     p = length mem \<and> (\<exists>c \<in> set cs. mem' = mem @ [mem ! c] \<and> nr_handle (mem ! c) = h)"
  by (induction cs) (auto simp: Let_def split: if_splits)

lemma find_returns_a_copy:
  assumes wf: "wellFormed d a"
      and f: "findNotificationRegistration d h a = (Some p, a')"
  shows "p \<notin> set (notificationRegistrations (devices a' ! dev_internal d)) \<and>
         nr_handle (registrations a' ! p) = h \<and>
         registry d (setCallbackThrough p callback a') = registry d a"
proof -
  let ?cs = "notificationRegistrations (devices a ! dev_internal d)"
  obtain mem' where fi: "findIn (registrations a) ?cs h = (Some p, mem')"
    and a': "a' = a\<lparr>registrations := mem'\<rparr>"
    using f by (auto simp: findNotificationRegistration_def split: prod.splits)
  from findIn_Some [OF fi] obtain c where p: "p = length (registrations a)"
    and c: "c \<in> set ?cs" "mem' = registrations a @ [registrations a ! c]"
      "nr_handle (registrations a ! c) = h" by blast
  have lt: "\<forall>c \<in> set ?cs. c < length (registrations a)"
    using wf by (simp add: wellFormed_def list_all_iff)
  then have notin: "p \<notin> set ?cs" using p by auto
  have "map (\<lambda>c. (mem'[p := (mem' ! p)\<lparr>nr_callback := callback\<rparr>]) ! c) ?cs =
        map (\<lambda>c. registrations a ! c) ?cs"
  proof (rule map_cong [OF refl])
    fix x assume "x \<in> set ?cs"
    then have "x < length (registrations a)" using lt by simp
    then show "(mem'[p := (mem' ! p)\<lparr>nr_callback := callback\<rparr>]) ! x = registrations a ! x"
      using p c(2) by (simp add: nth_append)
  qed
  then have "registry d (setCallbackThrough p callback a') = registry d a"
    by (simp add: registry_def setCallbackThrough_def a')
  moreover have "nr_handle (registrations a' ! p) = h"
    using p c by (simp add: a')
  ultimately show ?thesis using notin by (simp add: a')
qed

lemma setIndex_length: "setIndex a i v = Inr b \<Longrightarrow> length b = length a"
  by (auto simp: setIndex_def split: if_splits)

lemma PutUint16_length: "PutUint16 a k v = Inr b \<Longrightarrow> length b = length a"
  by (auto simp: PutUint16_def split: if_splits)

lemma copyAt_length: "copyAt a k src = Inr b \<Longrightarrow> length b = length a"
  by (auto simp: copyAt_def split: if_splits)

lemma sliceTo_length: "sliceTo a n = Inr b \<Longrightarrow> length b \<le> length a"
  by (auto simp: sliceTo_def split: if_splits)

lemma manufacturerData_length:
  "advertisingData_manufacturerData mds (d, n) = Inr (d', n') \<Longrightarrow> length d' = length d"
proof (induction mds arbitrary: d n)
  case Nil
  then show ?case by simp
next
  case (Cons md rest)
  from Cons.prems obtain d1 d2 d3 d4 where
    1: "setIndex d (unat n) (3 + of_nat (length (md_Data md))) = Inr d1" and
    2: "setIndex d1 (unat (n + 1)) ADManufacturerData = Inr d2" and
    3: "PutUint16 d2 (unat (n + 2)) (CompanyID md) = Inr d3" and
    4: "copyAt d3 (unat (n + 4)) (md_Data md) = Inr d4" and
    5: "advertisingData_manufacturerData rest (d4, n + (4 + of_nat (length (md_Data md)))) = Inr (d', n')"
    by (auto simp: bindE_eq_Inr split: if_splits)
  from Cons.IH [OF 5] setIndex_length [OF 1] setIndex_length [OF 2] PutUint16_length [OF 3]
    copyAt_length [OF 4]
  show ?case by simp
qed

lemma serviceData_length:
  "scanResponse_serviceData sds (d, n) = Inr (d', n') \<Longrightarrow> length d' = length d"
proof (induction sds arbitrary: d n)
  case Nil
  then show ?case by simp
next
  case (Cons sde rest)
  from Cons.prems obtain d0 d1 d2 d3 where
    0: "(if Is16Bit (sd_UUID sde) then PutUint16 d (unat (n + 2)) (Get16Bit (sd_UUID sde))
         else if Is32Bit (sd_UUID sde) then Inl ErrServiceData32Bit else Inr d) = Inr d0" and
    1: "setIndex d0 (unat n) (3 + of_nat (length (sd_Data sde))) = Inr d1" and
    2: "setIndex d1 (unat (n + 1)) ADServiceData = Inr d2" and
    3: "copyAt d2 (unat (n + 4)) (sd_Data sde) = Inr d3" and
    4: "scanResponse_serviceData rest (d3, n + (4 + of_nat (length (sd_Data sde)))) = Inr (d', n')"
    by (auto simp: bindE_eq_Inr split: if_splits)
  from 0 have "length d0 = length d"
    by (auto dest: PutUint16_length split: if_splits)
  with Cons.IH [OF 4] setIndex_length [OF 1] setIndex_length [OF 2] copyAt_length [OF 3]
  show ?case by simp
qed

lemma advertisingPacket_at_most_31:
  assumes "advertisingPacket uuids mds = Inr packet"
  shows "length packet \<le> 31"
proof -
  from assms obtain d0 n0 d n where
    u: "advertisingData_serviceUUIDs uuids advertisingData_flags = Inr (d0, n0)" and
    m: "advertisingData_manufacturerData mds (d0, n0) = Inr (d, n)" and
    s: "sliceTo d (unat n) = Inr packet"
    by (auto simp: advertisingPacket_def bindE_eq_Inr)
  have "length d0 = 31"
    using u by (auto simp: advertisingData_serviceUUIDs_def advertisingData_flags_def zeroArray_def
        Let_def bindE_eq_Inr dest!: PutUint16_length copyAt_length split: if_splits)
  with manufacturerData_length [OF m] sliceTo_length [OF s] show ?thesis by simp
qed

lemma scanResponsePacket_at_most_31:
  assumes "scanResponsePacket name sds = Inr packet"
  shows "length packet \<le> 31"
proof -
  from assms obtain d0 n0 d n where
    u: "scanResponse_localName name = Inr (d0, n0)" and
    m: "scanResponse_serviceData sds (d0, n0) = Inr (d, n)" and
    s: "sliceTo d (unat n) = Inr packet"
    by (auto simp: scanResponsePacket_def bindE_eq_Inr)
  have "length d0 = 31"
    using u by (auto simp: scanResponse_localName_def zeroArray_def setIndex_def copyAt_def
        Let_def split: if_splits)
  with serviceData_length [OF m] sliceTo_length [OF s] show ?thesis by simp
qed

lemma replicate_31: "replicate 31 (0::byte) = 0 # 0 # replicate 29 0"
  by (simp add: numeral_eq_Suc)

lemma localName_short_marked_0x08:
  assumes "0 < length name" "length name \<le> 29"
  shows "scanResponsePacket name [] = Inr ([of_nat (1 + length name), 0x08] @ name)"
proof -
  have u: "unat (of_nat (2 + length name) :: byte) = 2 + length name"
    by (rule of_nat_inverse [OF refl]) (use assms in simp)
  have "scanResponse_localName name =
          Inr ([of_nat (1 + length name), 0x08] @ name @ replicate (29 - length name) 0,
               of_nat (2 + length name))"
    using assms
    by (simp add: scanResponse_localName_def zeroArray_def setIndex_def copyAt_def
        ADShortLocalName_def replicate_31)
  then show ?thesis
    using assms u by (simp add: scanResponsePacket_def sliceTo_def)
qed

lemma localName_long_marked_0x09:
  assumes "29 < length name"
  shows "scanResponsePacket name [] = Inr ([30, 0x09] @ take 29 name)"
proof -
  have "scanResponse_localName name = Inr ([30, 0x09] @ take 29 name, 31)"
    using assms
    by (simp add: scanResponse_localName_def zeroArray_def setIndex_def copyAt_def
        ADCompleteLocalName_def replicate_31 min_def)
  then show ?thesis
    using assms by (simp add: scanResponsePacket_def sliceTo_def min_def)
qed

text \<open>
  With 24 bytes of manufacturer data the packet is full (31 bytes); a second element of
  221 bytes passes the check, since \<open>31 + 4 + 221\<close> wraps to 0, and the write of
  its length byte at index 31 panics.
\<close>

lemma manufacturerData_wrapped_index_panics:
  "advertisingPacket []
     [\<lparr>CompanyID = 0x1234, md_Data = replicate 24 0x55\<rparr>,
      \<lparr>CompanyID = 0x1234, md_Data = replicate 221 0x55\<rparr>] = Inl Panic"
  by code_simp

lemma Connect_loop_connects:
  assumes "\<not> connected (connectData a)"
      and "\<forall>i. k \<le> i \<and> i < j \<longrightarrow> pollQuiet tr i"
      and "\<forall>i. k \<le> i \<and> i < j \<longrightarrow> \<not> timedOut start (now tr (Suc i))"
      and "pollEvent tr j = PollConnectComplete c"
      and "connected c"
      and "k \<le> j"
  shows "\<exists>a1. cmds a1 = cmds a \<and> connectData a1 = c \<and>
           Connect_loop tr address start k a =
             (case newDevice tr address a1 of (d, a2) \<Rightarrow> Some (Inr d, clearConnectData a2))"
  using assms
proof (induction "j - k" arbitrary: k a)
  case 0
  then have kj: "k = j" by simp
  let ?a1 = "a\<lparr>connectData := c\<rparr>"
  have p: "poll tr k a = Inr ?a1" using 0(5) kj by (simp add: poll_def)
  have "Connect_loop tr address start k a =
          (case newDevice tr address ?a1 of (d, a2) \<Rightarrow> Some (Inr d, clearConnectData a2))"
    using p 0(6) by (subst Connect_loop.simps) simp
  then show ?case by (intro exI [of _ ?a1]) simp
next
  case (Suc n)
  then have lt: "k < j" by simp
  from Suc.prems(2) lt have "pollQuiet tr k" by simp
  then obtain a1 where a1: "poll tr k a = Inr a1" "connectData a1 = connectData a" "cmds a1 = cmds a"
    using poll_quiet by blast
  have nt: "\<not> timedOut start (now tr (Suc k))" using Suc.prems(3) lt by simp
  have step: "Connect_loop tr address start k a = Connect_loop tr address start (Suc k) a1"
    using a1 nt Suc.prems(1) by (subst Connect_loop.simps) simp
  have "\<exists>a2. cmds a2 = cmds a1 \<and> connectData a2 = c \<and>
           Connect_loop tr address start (Suc k) a1 =
             (case newDevice tr address a2 of (d, a3) \<Rightarrow> Some (Inr d, clearConnectData a3))"
  proof (rule Suc.hyps(1))
    show "n = j - Suc k" using Suc.hyps(2) by simp
    show "\<not> connected (connectData a1)" using a1 Suc.prems(1) by simp
    show "\<forall>i. Suc k \<le> i \<and> i < j \<longrightarrow> pollQuiet tr i" using Suc.prems(2) by simp
    show "\<forall>i. Suc k \<le> i \<and> i < j \<longrightarrow> \<not> timedOut start (now tr (Suc i))"
      using Suc.prems(3) by simp
    show "pollEvent tr j = PollConnectComplete c" by (rule Suc.prems(4))
    show "connected c" by (rule Suc.prems(5))
    show "Suc k \<le> j" using lt by simp
  qed
  with step a1 show ?case by auto
qed

lemma quiet_clock_early: "\<forall>i<2. sint (of_nat (Suc i) * 2000000000 - of_nat 0 * 2000000000 :: 64 word) < 6000000000"
proof (intro allI impI)
  fix i :: nat assume "i < 2"
  then have "i = 0 \<or> i = 1" by auto
  then show "sint (of_nat (Suc i) * 2000000000 - of_nat 0 * 2000000000 :: 64 word) < 6000000000"
    by auto
qed




section \<open>Claims\<close>

text \<open>
  C1. The claim: a local name of 1 to 29 bytes is emitted in full with type Complete
  Local Name (0x09), a longer one cut to 29 bytes with type Shortened Local Name (0x08);
  "Go Bluetooth" encodes as length 13, type 0x09 and the name. The code has the two
  types the other way round: for the advertisement named "Go Bluetooth", setServiceData
  hands the transport length 13, type 0x08 (Shortened Local Name) and the name.
\<close>

theorem C1_go_bluetooth_sent_as_shortened_name:
  "setServiceData quietEnv [] (defaultAdvertisement\<lparr>localName := bytes_of ''Go Bluetooth''\<rparr>, newAdapter) =
     (None, defaultAdvertisement\<lparr>localName := bytes_of ''Go Bluetooth''\<rparr>,
      newAdapter\<lparr>cmds := [leSetScanResponseData
        ([13, 0x08] @ bytes_of ''Go Bluetooth'')]\<rparr>)"
  by code_simp

text \<open>
  C2. The claim: building a packet fails with the length-exceeded error exactly when
  an element would take the packet beyond 31 bytes, also for payloads of 252 bytes or
  more. The check adds in uint8 arithmetic: with the three Flags bytes in the packet and
  252 bytes of manufacturer data, \<open>3 + 4 + 252\<close> wraps to 3, the check passes, and
  Start succeeds; the transport gets the three Flags bytes and nothing of the element.
\<close>

theorem C2_252_bytes_of_manufacturer_data_pass_the_check:
  "Start quietEnv (Configure options252 (defaultAdvertisement, newAdapter)) =
     (None, fst (Configure options252 (defaultAdvertisement, newAdapter)),
      (snd (Configure options252 (defaultAdvertisement, newAdapter)))
        \<lparr>cmds := [leSetAdvertisingParameters 0x0800 0x0800 0 0 0 (replicate 6 0) 7 0,
                  leSetAdvertisingData [0x02, 0x01, 0x06],
                  leSetScanResponseData ([13, 0x08] @ bytes_of ''Go Bluetooth''),
                  leSetAdvertiseEnable True],
         tasks := [TaskSelect]\<rparr>)"
  by code_simp

text \<open>
  C3. The claim: the decode walk reads the buffer only below the declared length.
  Two reports of declared length 3 that agree on their first three bytes decode to
  different local names: the name is read from the offsets 2 to 5, three of them at or
  beyond the declared length. And in a report of declared length 31 whose last structure
  starts at offset 30, the type byte is read at offset 31, beyond a buffer of 31 bytes:
  the walk panics.
\<close>

theorem C3_decode_reads_beyond_declared_length:
  "eirLength (truncatedReport [0x42, 0x43, 0x44]) = 3 \<and>
   take 3 (eirData (truncatedReport [0x42, 0x43, 0x44])) = take 3 (eirData (truncatedReport [0x58, 0x59, 0x5A])) \<and>
   decode (truncatedReport [0x42, 0x43, 0x44]) =
     Inr \<lparr>ServiceUUIDs = [], LocalName = [0x41, 0x42, 0x43, 0x44]\<rparr> \<and>
   decode (truncatedReport [0x58, 0x59, 0x5A]) =
     Inr \<lparr>ServiceUUIDs = [], LocalName = [0x41, 0x58, 0x59, 0x5A]\<rparr> \<and>
   decode fullReport = Inl Panic"
  by code_simp

text \<open>
  C4. The claim: every AD structure of a packet built without error has a length byte
  of 1 + len(value) that fits the rest of the packet, also for one 128-bit service
  UUID. For such a UUID the packet is 02 01 06 03 03: the last structure declares three
  bytes and one is left. For a 32-bit UUID with the bytes 01 to 10 the structure
  declares three bytes and six bytes of value follow, so the packet does not parse
  either.
\<close>

theorem C4_128_bit_uuid_gives_malformed_packet:
  "advertisingPacket [uuid128] [] = Inr [0x02, 0x01, 0x06, 0x03, 0x03] \<and>
   \<not> wellFormedAD [0x02, 0x01, 0x06, 0x03, 0x03] \<and>
   advertisingPacket [uuid32] [] =
     Inr [0x02, 0x01, 0x06, 0x03, 0x03, 0x10, 0x0F, 0x0E, 0x0D, 0x0C, 0x0B] \<and>
   \<not> wellFormedAD [0x02, 0x01, 0x06, 0x03, 0x03, 0x10, 0x0F, 0x0E, 0x0D, 0x0C, 0x0B]"
  by code_simp

text \<open>
  C5, as stated, fails. When the transport refuses the connect command, Connect
  returns the transport's error and sends no cancel command. When it refuses the cancel
  command, Connect returns that error after the deadline, not the connection-failed
  error. When connect data is pending at the call, Connect returns a Device although no
  poll surfaces a connect-complete event. And with the clock 5.9 seconds after the start
  Connect has not given up: it polls again and accepts the connect-complete event which
  that poll surfaces.
\<close>

theorem C5_connect_counterexample:
  "Connect refusingEnv peer newAdapter =
     Some (Inl (ErrTransport 1), newAdapter\<lparr>cmds := [connectCommand refusingEnv peer]\<rparr>) \<and>
   Connect cancelRefusingEnv peer newAdapter =
     Some (Inl (ErrTransport 1),
           newAdapter\<lparr>cmds := [connectCommand cancelRefusingEnv peer, leCancelConn]\<rparr>) \<and>
   Connect quietEnv peer pendingAdapter =
     Some (Inr \<lparr>dev_Address = \<lparr>MAC = [9, 9, 9, 9, 9, 9], isRandom = True\<rparr>, dev_internal = 0\<rparr>,
           newAdapter\<lparr>cmds := [connectCommand quietEnv peer],
             devices := [\<lparr>di_handle = 0x41, mtu = defaultMTU, notificationRegistrations = []\<rparr>],
             connections := [\<lparr>dev_Address = \<lparr>MAC = [9, 9, 9, 9, 9, 9], isRandom = True\<rparr>,
                              dev_internal = 0\<rparr>]\<rparr>) \<and>
   sint (now slowClockEnv 1 - now slowClockEnv 0) = 5900000000 \<and>
   Connect slowClockEnv peer newAdapter =
     Some (Inr \<lparr>dev_Address = \<lparr>MAC = [6, 5, 4, 3, 2, 1], isRandom = True\<rparr>, dev_internal = 0\<rparr>,
           newAdapter\<lparr>cmds := [connectCommand slowClockEnv peer],
             devices := [\<lparr>di_handle = 0x40, mtu = defaultMTU, notificationRegistrations = []\<rparr>],
             connections := [\<lparr>dev_Address = \<lparr>MAC = [6, 5, 4, 3, 2, 1], isRandom = True\<rparr>,
                              dev_internal = 0\<rparr>]\<rparr>)"
proof -
  have "Connect refusingEnv peer newAdapter =
     Some (Inl (ErrTransport 1), newAdapter\<lparr>cmds := [connectCommand refusingEnv peer]\<rparr>)"
    by (simp add: Connect_def hciCommand_def refusingEnv_def quietEnv_def newAdapter_def)
  moreover have "Connect cancelRefusingEnv peer newAdapter =
     Some (Inl (ErrTransport 1),
           newAdapter\<lparr>cmds := [connectCommand cancelRefusingEnv peer, leCancelConn]\<rparr>)"
    by (simp add: Connect_def Connect_loop.simps hciCommand_def cancelRefusingEnv_def quietEnv_def
        poll_def newAdapter_def peer_def connectCommand_def timedOut_iff Let_def)
  moreover have "Connect quietEnv peer pendingAdapter =
     Some (Inr \<lparr>dev_Address = \<lparr>MAC = [9, 9, 9, 9, 9, 9], isRandom = True\<rparr>, dev_internal = 0\<rparr>,
           newAdapter\<lparr>cmds := [connectCommand quietEnv peer],
             devices := [\<lparr>di_handle = 0x41, mtu = defaultMTU, notificationRegistrations = []\<rparr>],
             connections := [\<lparr>dev_Address = \<lparr>MAC = [9, 9, 9, 9, 9, 9], isRandom = True\<rparr>,
                              dev_internal = 0\<rparr>]\<rparr>)"
    by (simp add: Connect_def Connect_loop.simps hciCommand_def pendingAdapter_def quietEnv_def
        poll_def newAdapter_def peer_def connectCommand_def timedOut_iff newDevice_def
        addConnection_def clearConnectData_def defaultMTU_def Let_def)
  moreover have "sint (now slowClockEnv 1 - now slowClockEnv 0) = 5900000000"
    by (simp add: slowClockEnv_def quietEnv_def)
  moreover have "Connect slowClockEnv peer newAdapter =
     Some (Inr \<lparr>dev_Address = \<lparr>MAC = [6, 5, 4, 3, 2, 1], isRandom = True\<rparr>, dev_internal = 0\<rparr>,
           newAdapter\<lparr>cmds := [connectCommand slowClockEnv peer],
             devices := [\<lparr>di_handle = 0x40, mtu = defaultMTU, notificationRegistrations = []\<rparr>],
             connections := [\<lparr>dev_Address = \<lparr>MAC = [6, 5, 4, 3, 2, 1], isRandom = True\<rparr>,
                              dev_internal = 0\<rparr>]\<rparr>)"
    by (simp add: Connect_def Connect_loop.simps hciCommand_def slowClockEnv_def quietEnv_def
        poll_def newAdapter_def peer_def connectCommand_def timedOut_iff newDevice_def
        addConnection_def clearConnectData_def defaultMTU_def Let_def)
  ultimately show ?thesis by simp
qed

text \<open>
  C5, amended. With no connect data pending at the call, let the clock reading after
  the \<open>K\<close>-th poll be the first that lies 6 seconds or more after the start (more
  than 5 whole seconds). If the transport refuses the connect command, Connect returns
  that error and sends nothing else. If it accepts the command and the polls up to the
  \<open>K\<close>-th neither fail nor surface a connect-complete event, Connect sends exactly
  one cancel command and returns the connection-failed error, or the error of the cancel
  command when the transport refuses it. Connect does not give up earlier: if a poll
  \<open>j \<le> K\<close> surfaces a connect-complete event after polls that surfaced none,
  Connect returns the Device for it and sends no cancel command.
\<close>

theorem C5_connect_polls_until_six_seconds:
  assumes "\<not> connected (connectData a)"
      and "\<forall>i<K. sint (now tr (Suc i) - now tr 0) < 6000000000"
      and "6000000000 \<le> sint (now tr (Suc K) - now tr 0)"
  shows "(\<forall>e. respond tr (cmds a) (connectCommand tr address) = Some e \<longrightarrow>
            Connect tr address a =
              Some (Inl e, a\<lparr>cmds := cmds a @ [connectCommand tr address]\<rparr>)) \<and>
         (respond tr (cmds a) (connectCommand tr address) = None \<and> (\<forall>i\<le>K. pollQuiet tr i) \<longrightarrow>
            (\<exists>a'. Connect tr address a =
                    Some (Inl (case respond tr (cmds a @ [connectCommand tr address]) leCancelConn of
                                 None \<Rightarrow> ErrConnect | Some e \<Rightarrow> e), a') \<and>
                  cmds a' = cmds a @ [connectCommand tr address, leCancelConn])) \<and>
         (respond tr (cmds a) (connectCommand tr address) = None \<and> j \<le> K \<and>
          (\<forall>i<j. pollQuiet tr i) \<and> pollEvent tr j = PollConnectComplete c \<and> connected c \<longrightarrow>
            (\<exists>d a'. Connect tr address a = Some (Inr d, a') \<and>
                    MAC (dev_Address d) = makeAddress tr (cd_peerBdaddr c) \<and>
                    isRandom (dev_Address d) = isRandom address \<and>
                    cmds a' = cmds a @ [connectCommand tr address]))"
proof (intro conjI allI impI)
  fix e assume "respond tr (cmds a) (connectCommand tr address) = Some e"
  then show "Connect tr address a = Some (Inl e, a\<lparr>cmds := cmds a @ [connectCommand tr address]\<rparr>)"
    by (simp add: Connect_def hciCommand_def)
next
  let ?a0 = "a\<lparr>cmds := cmds a @ [connectCommand tr address]\<rparr>"
  assume h: "respond tr (cmds a) (connectCommand tr address) = None \<and> (\<forall>i\<le>K. pollQuiet tr i)"
  then have start: "Connect tr address a = Connect_loop tr address (now tr 0) 0 ?a0"
    by (simp add: Connect_def hciCommand_def)
  have "\<exists>a1. cmds a1 = cmds ?a0 \<and>
           Connect_loop tr address (now tr 0) 0 ?a0 =
             (case hciCommand tr leCancelConn a1 of
                (Some err, a2) \<Rightarrow> Some (Inl err, a2)
              | (None, a2) \<Rightarrow> Some (Inl ErrConnect, a2))"
  proof (rule Connect_loop_times_out [where K = K])
    show "\<not> connected (connectData ?a0)" using assms(1) by simp
    show "\<forall>j. 0 \<le> j \<and> j \<le> K \<longrightarrow> pollQuiet tr j" using h by simp
    show "\<forall>j. 0 \<le> j \<and> j < K \<longrightarrow> \<not> timedOut (now tr 0) (now tr (Suc j))"
      using assms(2) by (simp add: timedOut_iff not_le)
    show "timedOut (now tr 0) (now tr (Suc K))" using assms(3) by (simp add: timedOut_iff)
    show "0 \<le> K" by simp
  qed
  then obtain a1 where a1: "cmds a1 = cmds ?a0"
    and loop: "Connect_loop tr address (now tr 0) 0 ?a0 =
             (case hciCommand tr leCancelConn a1 of
                (Some err, a2) \<Rightarrow> Some (Inl err, a2)
              | (None, a2) \<Rightarrow> Some (Inl ErrConnect, a2))" by blast
  have hc: "hciCommand tr leCancelConn a1 =
          (respond tr (cmds a @ [connectCommand tr address]) leCancelConn,
           a1\<lparr>cmds := cmds a1 @ [leCancelConn]\<rparr>)"
    using a1 by (simp add: hciCommand_def)
  show "\<exists>a'. Connect tr address a =
                    Some (Inl (case respond tr (cmds a @ [connectCommand tr address]) leCancelConn of
                                 None \<Rightarrow> ErrConnect | Some e \<Rightarrow> e), a') \<and>
                  cmds a' = cmds a @ [connectCommand tr address, leCancelConn]"
    using start loop a1 hc
    by (cases "respond tr (cmds a @ [connectCommand tr address]) leCancelConn") simp_all
next
  let ?a0 = "a\<lparr>cmds := cmds a @ [connectCommand tr address]\<rparr>"
  assume h: "respond tr (cmds a) (connectCommand tr address) = None \<and> j \<le> K \<and>
          (\<forall>i<j. pollQuiet tr i) \<and> pollEvent tr j = PollConnectComplete c \<and> connected c"
  then have start: "Connect tr address a = Connect_loop tr address (now tr 0) 0 ?a0"
    by (simp add: Connect_def hciCommand_def)
  have "\<exists>a1. cmds a1 = cmds ?a0 \<and> connectData a1 = c \<and>
           Connect_loop tr address (now tr 0) 0 ?a0 =
             (case newDevice tr address a1 of (d, a2) \<Rightarrow> Some (Inr d, clearConnectData a2))"
  proof (rule Connect_loop_connects [where j = j])
    show "\<not> connected (connectData ?a0)" using assms(1) by simp
    show "\<forall>i. 0 \<le> i \<and> i < j \<longrightarrow> pollQuiet tr i" using h by simp
    show "\<forall>i. 0 \<le> i \<and> i < j \<longrightarrow> \<not> timedOut (now tr 0) (now tr (Suc i))"
      using assms(2) h by (simp add: timedOut_iff not_le)
    show "pollEvent tr j = PollConnectComplete c" using h by simp
    show "connected c" using h by simp
    show "0 \<le> j" by simp
  qed
  then obtain a1 where a1: "cmds a1 = cmds ?a0" "connectData a1 = c"
    and loop: "Connect_loop tr address (now tr 0) 0 ?a0 =
             (case newDevice tr address a1 of (d, a2) \<Rightarrow> Some (Inr d, clearConnectData a2))"
    by blast
  show "\<exists>d a'. Connect tr address a = Some (Inr d, a') \<and>
                    MAC (dev_Address d) = makeAddress tr (cd_peerBdaddr c) \<and>
                    isRandom (dev_Address d) = isRandom address \<and>
                    cmds a' = cmds a @ [connectCommand tr address]"
    using start loop a1
    by (simp add: newDevice_def Let_def addConnection_def clearConnectData_def)
qed

theorem C5_connect_polls_witness:
  "Connect refusingEnv peer newAdapter =
     Some (Inl (ErrTransport 1), newAdapter\<lparr>cmds := cmds newAdapter @ [connectCommand refusingEnv peer]\<rparr>) \<and>
   (\<exists>a'. Connect quietEnv peer newAdapter = Some (Inl ErrConnect, a') \<and>
         cmds a' = [connectCommand quietEnv peer, leCancelConn]) \<and>
   (\<exists>d a'. Connect connectingEnv peer newAdapter = Some (Inr d, a') \<and>
         MAC (dev_Address d) = [6, 5, 4, 3, 2, 1] \<and> isRandom (dev_Address d) \<and>
         cmds a' = [connectCommand connectingEnv peer])"
proof -
  have nc: "\<not> connected (connectData newAdapter)" by (simp add: newAdapter_def)
  have e1: "\<forall>i<2. sint (now refusingEnv (Suc i) - now refusingEnv 0) < 6000000000"
    using quiet_clock_early by (simp add: refusingEnv_def quietEnv_def)
  have e2: "\<forall>i<2. sint (now quietEnv (Suc i) - now quietEnv 0) < 6000000000"
    using quiet_clock_early by (simp add: quietEnv_def)
  have e3: "\<forall>i<2. sint (now connectingEnv (Suc i) - now connectingEnv 0) < 6000000000"
    using quiet_clock_early by (simp add: connectingEnv_def quietEnv_def)
  have l1: "6000000000 \<le> sint (now refusingEnv (Suc 2) - now refusingEnv 0)"
    by (simp add: refusingEnv_def quietEnv_def)
  have l2: "6000000000 \<le> sint (now quietEnv (Suc 2) - now quietEnv 0)"
    by (simp add: quietEnv_def)
  have l3: "6000000000 \<le> sint (now connectingEnv (Suc 2) - now connectingEnv 0)"
    by (simp add: connectingEnv_def quietEnv_def)
  have r1: "respond refusingEnv (cmds newAdapter) (connectCommand refusingEnv peer) = Some (ErrTransport 1)"
    by (simp add: refusingEnv_def)
  have r2: "respond quietEnv (cmds newAdapter) (connectCommand quietEnv peer) = None"
    "respond quietEnv (cmds newAdapter @ [connectCommand quietEnv peer]) leCancelConn = None"
    "\<forall>i\<le>2. pollQuiet quietEnv i"
    by (simp_all add: quietEnv_def pollQuiet_def)
  have r3: "respond connectingEnv (cmds newAdapter) (connectCommand connectingEnv peer) = None"
    "\<forall>i<2. pollQuiet connectingEnv i"
    "pollEvent connectingEnv 2 = PollConnectComplete
       \<lparr>connected = True, cd_handle = 0x40, cd_peerBdaddrType = 0x00, cd_peerBdaddr = [6, 5, 4, 3, 2, 1]\<rparr>"
    by (simp_all add: connectingEnv_def quietEnv_def pollQuiet_def)
  have c0: "cmds newAdapter = []" by (simp add: newAdapter_def)
  have m: "makeAddress connectingEnv [6, 5, 4, 3, 2, 1] = [6, 5, 4, 3, 2, 1]"
    "isRandom peer"
    by (simp_all add: connectingEnv_def quietEnv_def peer_def)
  from C5_connect_polls_until_six_seconds [OF nc e1 l1, of peer] r1
  have w1: "Connect refusingEnv peer newAdapter =
     Some (Inl (ErrTransport 1), newAdapter\<lparr>cmds := cmds newAdapter @ [connectCommand refusingEnv peer]\<rparr>)"
    by blast
  from C5_connect_polls_until_six_seconds [OF nc e2 l2, of peer] r2 c0
  have w2: "\<exists>a'. Connect quietEnv peer newAdapter = Some (Inl ErrConnect, a') \<and>
         cmds a' = [connectCommand quietEnv peer, leCancelConn]"
    by simp
  from C5_connect_polls_until_six_seconds [OF nc e3 l3, of peer 2
      "\<lparr>connected = True, cd_handle = 0x40, cd_peerBdaddrType = 0x00, cd_peerBdaddr = [6, 5, 4, 3, 2, 1]\<rparr>"]
    r3 c0 m
  have w3: "\<exists>d a'. Connect connectingEnv peer newAdapter = Some (Inr d, a') \<and>
         MAC (dev_Address d) = [6, 5, 4, 3, 2, 1] \<and> isRandom (dev_Address d) \<and>
         cmds a' = [connectCommand connectingEnv peer]"
    by simp
  from w1 w2 w3 show ?thesis by blast
qed

text \<open>
  C6. The claim: the pointer a lookup returns is the entry the registry holds, so that
  a write through it shows in the registry. After one registration for handle 0x10 with
  callback 7, the lookup returns the address of a new cell (cell 1) that holds a copy,
  while the registry's element is cell 0; after the callback is set to 9 through the
  returned pointer, the registry still holds callback 7.
\<close>

theorem C6_lookup_returns_a_copy:
  "findNotificationRegistration device0 0x10 (addNotificationRegistration device0 0x10 7 connected0) =
     (Some 1,
      connected0\<lparr>devices := [\<lparr>di_handle = 0x40, mtu = defaultMTU, notificationRegistrations = [0]\<rparr>],
        registrations := [\<lparr>nr_handle = 0x10, nr_callback = 7\<rparr>, \<lparr>nr_handle = 0x10, nr_callback = 7\<rparr>]\<rparr>) \<and>
   registry device0 (setCallbackThrough 1 9
     (snd (findNotificationRegistration device0 0x10 (addNotificationRegistration device0 0x10 7 connected0))))
     = [\<lparr>nr_handle = 0x10, nr_callback = 7\<rparr>]"
  by code_simp

text \<open>
  C7. On an advertisement whose generic services are not yet configured, any number
  \<open>n \<ge> 1\<close> of Configure calls adds exactly two services to the adapter's service
  table, Generic Access and Generic Attribute, with the device name of the first call:
  the later calls add nothing and change nothing, whatever their local name.
\<close>

theorem C7_generic_services_registered_once:
  "\<not> genericServiceInit a \<Longrightarrow>
   services (snd (fold Configure (options # later) (a, ad))) =
     services ad @
       [\<lparr>svc_UUID = ServiceUUIDGenericAccess,
         Characteristics =
           [\<lparr>cc_UUID = CharacteristicUUIDDeviceName, cc_Flags = CharacteristicReadPermission,
             cc_Value = (if opt_LocalName options \<noteq> [] then opt_LocalName options
                         else bytes_of ''TinyGo'')\<rparr>,
            \<lparr>cc_UUID = CharacteristicUUIDAppearance, cc_Flags = CharacteristicReadPermission,
             cc_Value = [0x40, 0x05]\<rparr>]\<rparr>,
        \<lparr>svc_UUID = ServiceUUIDGenericAttribute,
         Characteristics =
           [\<lparr>cc_UUID = CharacteristicUUIDServiceChanged,
             cc_Flags = CharacteristicIndicatePermission, cc_Value = []\<rparr>]\<rparr>]"
proof -
  assume fresh: "\<not> genericServiceInit a"
  have "snd (fold Configure later (Configure options (a, ad))) = snd (Configure options (a, ad))"
    by (rule fold_Configure_initialised) (rule Configure_sets_init)
  then have "services (snd (fold Configure (options # later) (a, ad))) =
             services (snd (Configure options (a, ad)))" by simp
  also from fresh have "\<dots> = services ad @ 
       [\<lparr>svc_UUID = ServiceUUIDGenericAccess,
         Characteristics =
           [\<lparr>cc_UUID = CharacteristicUUIDDeviceName, cc_Flags = CharacteristicReadPermission,
             cc_Value = (if opt_LocalName options \<noteq> [] then opt_LocalName options
                         else bytes_of ''TinyGo'')\<rparr>,
            \<lparr>cc_UUID = CharacteristicUUIDAppearance, cc_Flags = CharacteristicReadPermission,
             cc_Value = [0x40, 0x05]\<rparr>]\<rparr>,
        \<lparr>svc_UUID = ServiceUUIDGenericAttribute,
         Characteristics =
           [\<lparr>cc_UUID = CharacteristicUUIDServiceChanged,
             cc_Flags = CharacteristicIndicatePermission, cc_Value = []\<rparr>]\<rparr>]"
    by (simp add: Configure_def configureGenericServices_def Let_def AddService_def)
  finally show ?thesis .
qed

theorem C7_generic_services_witness:
  "\<not> genericServiceInit defaultAdvertisement \<and>
   map svc_UUID (services (snd (fold Configure
       [optionsNamed ''Go Bluetooth'', optionsNamed ''Renamed'', optionsNamed ''Again'']
       (defaultAdvertisement, newAdapter)))) =
     [ServiceUUIDGenericAccess, ServiceUUIDGenericAttribute] \<and>
   map (cc_Value \<circ> hd \<circ> Characteristics) (services (snd (fold Configure
       [optionsNamed ''Go Bluetooth'', optionsNamed ''Renamed'', optionsNamed ''Again'']
       (defaultAdvertisement, newAdapter)))) = [bytes_of ''Go Bluetooth'', []]"
proof -
  have fresh: "\<not> genericServiceInit defaultAdvertisement"
    by (simp add: defaultAdvertisement_def)
  from C7_generic_services_registered_once [OF fresh, of "optionsNamed ''Go Bluetooth''"
      "[optionsNamed ''Renamed'', optionsNamed ''Again'']" newAdapter] fresh
  show ?thesis by (simp add: newAdapter_def optionsNamed_def bytes_of_def)
qed

text \<open>
  C8. Scan with the scanning flag set returns the scan-already-active error, and
  StopScan with the flag clear returns the scan-not-active error; in both cases the
  adapter, the list of commands sent to the transport included, is returned unchanged.
\<close>

theorem C8_busy_errors_without_effect:
  "(scanning a \<longrightarrow> Scan tr callback a = Some (Some errScanning, a)) \<and>
   (\<not> scanning a \<longrightarrow> StopScan tr a = (Some errNotScanning, a))"
  by (simp add: Scan_def StopScan_def)

theorem C8_busy_errors_witness:
  "Scan quietEnv (\<lambda>a r. a) (newAdapter\<lparr>scanning := True\<rparr>) =
     Some (Some errScanning, newAdapter\<lparr>scanning := True\<rparr>) \<and>
   StopScan quietEnv newAdapter = (Some errNotScanning, newAdapter)"
  using C8_busy_errors_without_effect [of "newAdapter\<lparr>scanning := True\<rparr>" quietEnv "\<lambda>a r. a"]
    C8_busy_errors_without_effect [of newAdapter quietEnv "\<lambda>a r. a"]
  by (simp add: newAdapter_def)

text \<open>
  C9. The Device of a successful Connect has the is-random flag of the caller's
  address, and the MAC made from the peer address of connect data the transport holds:
  pending at the call or surfaced by a poll. The peer address type the controller
  reports in that data plays no part: whatever it is, the flag is the caller's.
\<close>

theorem C9_device_address_of_connect:
  assumes "Connect tr address a = Some (Inr d, a')"
  shows "isRandom (dev_Address d) = isRandom address \<and>
         (\<exists>c. connected c \<and>
              (c = connectData a \<or> (\<exists>j. pollEvent tr j = PollConnectComplete c)) \<and>
              MAC (dev_Address d) = makeAddress tr (cd_peerBdaddr c))"
proof (cases "respond tr (cmds a) (connectCommand tr address)")
  case (Some err)
  with assms show ?thesis by (simp add: Connect_def hciCommand_def)
next
  case None
  with assms have "Connect_loop tr address (now tr 0) 0 (a\<lparr>cmds := cmds a @ [connectCommand tr address]\<rparr>)
                     = Some (Inr d, a')"
    by (simp add: Connect_def hciCommand_def)
  from Connect_loop_device [OF this] show ?thesis by simp
qed

theorem C9_device_address_witness:
  "Connect connectingEnv peer newAdapter =
     Some (Inr \<lparr>dev_Address = \<lparr>MAC = [6, 5, 4, 3, 2, 1], isRandom = True\<rparr>, dev_internal = 0\<rparr>,
           newAdapter\<lparr>cmds := [connectCommand connectingEnv peer],
             devices := [\<lparr>di_handle = 0x40, mtu = defaultMTU, notificationRegistrations = []\<rparr>],
             connections := [\<lparr>dev_Address = \<lparr>MAC = [6, 5, 4, 3, 2, 1], isRandom = True\<rparr>,
                              dev_internal = 0\<rparr>]\<rparr>) \<and>
   isRandom (dev_Address \<lparr>dev_Address = \<lparr>MAC = [6, 5, 4, 3, 2, 1], isRandom = True\<rparr>,
                           dev_internal = 0\<rparr>) = isRandom peer \<and>
   MAC peer = [1, 2, 3, 4, 5, 6]"
proof -
  have run: "Connect connectingEnv peer newAdapter =
     Some (Inr \<lparr>dev_Address = \<lparr>MAC = [6, 5, 4, 3, 2, 1], isRandom = True\<rparr>, dev_internal = 0\<rparr>,
           newAdapter\<lparr>cmds := [connectCommand connectingEnv peer],
             devices := [\<lparr>di_handle = 0x40, mtu = defaultMTU, notificationRegistrations = []\<rparr>],
             connections := [\<lparr>dev_Address = \<lparr>MAC = [6, 5, 4, 3, 2, 1], isRandom = True\<rparr>,
                              dev_internal = 0\<rparr>]\<rparr>)"
    by (simp add: Connect_def Connect_loop.simps hciCommand_def connectingEnv_def quietEnv_def
        poll_def newAdapter_def peer_def connectCommand_def timedOut_iff newDevice_def
        addConnection_def clearConnectData_def defaultMTU_def Let_def)
  from C9_device_address_of_connect [OF run] run show ?thesis
    by (simp add: peer_def)
qed




end
